theory Spec2Isabelle
  imports Main "HOL-Library.Word"
begin

section \<open>Outcomes, errors and the formatting fragment of fmt\<close>

text \<open>
  A Go call either returns a value or panics with a payload. Every operation of the
  package is a function from the state before the call to an outcome and the state
  after it, so that the side effects performed before a panic are kept.
\<close>

datatype 'a outcome = Returned 'a | Panicked string

text \<open>
  Go \<^verbatim>\<open>error\<close> values: \<open>ErrClosed\<close> is \<^verbatim>\<open>os.ErrClosed\<close> (an operation on a file
  handle that is already closed), \<open>ErrIO\<close> any other failure reported by the operating
  system, \<open>Errorf\<close> an error built by \<^verbatim>\<open>fmt.Errorf\<close>.
\<close>

datatype error = ErrClosed | ErrIO string | Errorf string

text \<open>
  An operand of type \<^verbatim>\<open>interface{}\<close>: a Go string, or a value of any other kind given
  by its default (\<^verbatim>\<open>%v\<close>) rendering.
\<close>

datatype val = Str string | NonStr string

fun fmtV :: "val \<Rightarrow> string" where
  "fmtV (Str s) = s"
| "fmtV (NonStr s) = s"

fun isString :: "val \<Rightarrow> bool" where
  "isString (Str s) = True"
| "isString (NonStr s) = False"

text \<open>\<^verbatim>\<open>fmt.Sprintln\<close>: operands separated by one space, then a newline.\<close>

fun doPrintln :: "val list \<Rightarrow> string" where
  "doPrintln [] = []"
| "doPrintln [a] = fmtV a"
| "doPrintln (a # b # as) = fmtV a @ '' '' @ doPrintln (b # as)"

definition Sprintln :: "val list \<Rightarrow> string" where
  "Sprintln v = doPrintln v @ ''\<newline>''"

text \<open>
  \<^verbatim>\<open>fmt.Sprint\<close>: a space is added between two operands when neither is a string.
  The first argument of \<open>doPrint\<close> is \<^verbatim>\<open>prevString\<close>.
\<close>

fun doPrint :: "bool \<Rightarrow> val list \<Rightarrow> string" where
  "doPrint prevString [] = []"
| "doPrint prevString (a # as) =
     (if \<not> isString a \<and> \<not> prevString then '' '' else []) @ fmtV a @ doPrint (isString a) as"

definition Sprint :: "val list \<Rightarrow> string" where
  "Sprint v = (case v of [] \<Rightarrow> [] | a # as \<Rightarrow> fmtV a @ doPrint (isString a) as)"

text \<open>
  The fragment of \<^verbatim>\<open>fmt.Sprintf\<close> that the package's own format strings use: the verbs
  \<^verbatim>\<open>%v\<close> and \<^verbatim>\<open>%s\<close> applied to operands that are strings (given here already as
  strings); all other text of the format is copied. A verb without an operand prints
  \<^verbatim>\<open>%!v(MISSING)\<close>, operands left over are reported as \<^verbatim>\<open>%!(EXTRA string=...)\<close>.
  The calls \<^verbatim>\<open>Debugf\<close> and \<^verbatim>\<open>Errorf\<close> make with a format string of the caller
  take the formatter as a parameter instead.
\<close>

fun extras :: "string list \<Rightarrow> string" where
  "extras [] = []"
| "extras [a] = ''string='' @ a"
| "extras (a # b # as) = ''string='' @ a @ '', '' @ extras (b # as)"

fun Sprintf :: "string \<Rightarrow> string list \<Rightarrow> string" where
  "Sprintf [] [] = []"
| "Sprintf [] (a # as) = ''%!(EXTRA '' @ extras (a # as) @ '')''"
| "Sprintf [c] as = c # Sprintf [] as"
| "Sprintf (c # d # fs) as =
     (if c = CHR ''%'' \<and> (d = CHR ''v'' \<or> d = CHR ''s'') then
        (case as of
           [] \<Rightarrow> ''%!'' @ [d] @ ''(MISSING)'' @ Sprintf fs []
         | a # as' \<Rightarrow> a @ Sprintf fs as')
      else c # Sprintf (d # fs) as)"

text \<open>
  An operand with a \<^verbatim>\<open>String\<close> method under the verb \<^verbatim>\<open>%s\<close>: fmt calls the method and
  recovers from a panic inside it, printing the panic value in place of the operand.
\<close>

definition fmt_Stringer :: "string outcome \<Rightarrow> string" where
  "fmt_Stringer r =
     (case r of
        Returned s \<Rightarrow> s
      | Panicked p \<Rightarrow> ''%!s(PANIC=String method: '' @ p @ '')'')"

section \<open>Release types and options\<close>

text \<open>\<^verbatim>\<open>ReleaseType\<close> is a Go \<^verbatim>\<open>uint\<close>; the four constants are numbered by \<^verbatim>\<open>iota\<close>.\<close>

type_synonym ReleaseType = "64 word"

definition ReleaseTypeError :: ReleaseType where
  "ReleaseTypeError = 0"

definition Release_RT :: ReleaseType where
  "Release_RT = 1"

definition Dev :: ReleaseType where
  "Dev = 2"

definition Testing :: ReleaseType where
  "Testing = 3"

record Options =
  BinaryName :: string
  BugReportURL :: string
  Debug :: bool
  Release :: ReleaseType
  Version :: string

text \<open>\<^verbatim>\<open>func (rt ReleaseType) String() string\<close>\<close>

definition ReleaseType_String :: "ReleaseType \<Rightarrow> string outcome" where
  "ReleaseType_String rt =
     (if rt = ReleaseTypeError then Panicked ''uninitialized release type''
      else if rt = Release_RT then Returned ''release''
      else if rt = Dev then Returned ''dev''
      else if rt = Testing then Returned ''testing''
      else Panicked ''unknown release type'')"

text \<open>\<^verbatim>\<open>func (o *Options) BuildInfoString() string\<close>\<close>

definition Options_BuildInfoString :: "Options \<Rightarrow> string" where
  "Options_BuildInfoString opts =
     Sprintf ''(%v v%v, Release: %s)''
       [BinaryName opts, Version opts, fmt_Stringer (ReleaseType_String (Release opts))]"

section \<open>The process environment\<close>

text \<open>
  What the package does outside its sink: \<^verbatim>\<open>debug.PrintStack()\<close> and
  \<^verbatim>\<open>os.Stderr.WriteString\<close> both write to standard error, recorded in order.
  \<open>hdr\<close> is the header (date, time, file and line) that the standard library's logger
  puts before a line at this moment; it is given by the environment.
\<close>

datatype stderr_event = StackTrace | Text string

record world =
  stderr :: "stderr_event list"
  hdr :: string

definition PrintStack :: "world \<Rightarrow> world" where
  "PrintStack w = w\<lparr>stderr := stderr w @ [StackTrace]\<rparr>"

definition Stderr_WriteString :: "string \<Rightarrow> world \<Rightarrow> world" where
  "Stderr_WriteString s w = w\<lparr>stderr := stderr w @ [Text s]\<rparr>"

text \<open>\<^verbatim>\<open>func (o *Options) Critical(v ...interface{})\<close>\<close>

definition Options_Critical :: "Options \<Rightarrow> val list \<Rightarrow> world \<Rightarrow> unit outcome \<times> world" where
  "Options_Critical opts v w =
     (let s = Sprintf ''Critical error: %v %vPlease submit a bug report here: %v\<newline>''
                [Options_BuildInfoString opts, Sprintln v, BugReportURL opts];
          w1 = (if Release opts \<noteq> Testing then Stderr_WriteString s (PrintStack w) else w)
      in if Debug opts then (Panicked s, w1) else (Returned (), w1))"

section \<open>The file behind a closeableFile\<close>

text \<open>
  \<^verbatim>\<open>*os.File\<close>, as far as the package uses it. \<open>faults\<close> scripts the operating system:
  each call on an open handle takes the next entry as its result (\<open>None\<close>, or an empty
  script, is success). A call on a closed handle fails with \<open>ErrClosed\<close>. \<open>calls\<close>
  records every call that was made, in order.
\<close>

datatype syscall = SysWrite string | SysSync | SysClose

record os_file =
  contents :: string
  fd_open :: bool
  faults :: "error option list"
  calls :: "syscall list"

definition next_fault :: "error option list \<Rightarrow> error option \<times> error option list" where
  "next_fault fs = (case fs of [] \<Rightarrow> (None, []) | r # rest \<Rightarrow> (r, rest))"

definition File_Write :: "os_file \<Rightarrow> string \<Rightarrow> (nat \<times> error option) \<times> os_file" where
  "File_Write f b =
     (let f0 = f\<lparr>calls := calls f @ [SysWrite b]\<rparr> in
      if \<not> fd_open f then ((0, Some ErrClosed), f0)
      else case next_fault (faults f) of
             (Some e, rest) \<Rightarrow> ((0, Some e), f0\<lparr>faults := rest\<rparr>)
           | (None, rest) \<Rightarrow> ((length b, None), f0\<lparr>faults := rest, contents := contents f @ b\<rparr>))"

definition File_Sync :: "os_file \<Rightarrow> error option \<times> os_file" where
  "File_Sync f =
     (let f0 = f\<lparr>calls := calls f @ [SysSync]\<rparr> in
      if \<not> fd_open f then (Some ErrClosed, f0)
      else case next_fault (faults f) of (r, rest) \<Rightarrow> (r, f0\<lparr>faults := rest\<rparr>))"

definition File_Close :: "os_file \<Rightarrow> error option \<times> os_file" where
  "File_Close f =
     (let f0 = f\<lparr>calls := calls f @ [SysClose]\<rparr> in
      if \<not> fd_open f then (Some ErrClosed, f0)
      else case next_fault (faults f) of (r, rest) \<Rightarrow> (r, f0\<lparr>faults := rest, fd_open := False\<rparr>))"

section \<open>closeableFile\<close>

text \<open>
  The read-write mutex of the Go struct orders concurrent calls; the model is of one
  call at a time and has no field for it.
\<close>

record closeableFile =
  File :: os_file
  closed :: bool
  cf_staticOptions :: Options

text \<open>\<^verbatim>\<open>func (cf *closeableFile) Close() error\<close>\<close>

definition closeableFile_Close ::
  "closeableFile \<Rightarrow> world \<Rightarrow> error option outcome \<times> closeableFile \<times> world" where
  "closeableFile_Close cf w =
     (case (if closed cf
            then Options_Critical (cf_staticOptions cf) [Str ''cannot close the file; already closed''] w
            else (Returned (), w)) of
        (Panicked p, w1) \<Rightarrow> (Panicked p, cf, w1)
      | (Returned u, w1) \<Rightarrow>
          (case File_Sync (File cf) of
             (Some err, f1) \<Rightarrow> (Returned (Some err), cf\<lparr>File := f1\<rparr>, w1)
           | (None, f1) \<Rightarrow>
               (case File_Close f1 of
                  (r, f2) \<Rightarrow> (Returned r, cf\<lparr>File := f2, closed := True\<rparr>, w1))))"

text \<open>\<^verbatim>\<open>func (cf *closeableFile) Write(b []byte) (int, error)\<close>\<close>

definition closeableFile_Write ::
  "closeableFile \<Rightarrow> string \<Rightarrow> world \<Rightarrow> (nat \<times> error option) outcome \<times> closeableFile \<times> world" where
  "closeableFile_Write cf b w =
     (case (if closed cf
            then Options_Critical (cf_staticOptions cf)
                   [Str ''cannot write to the file after it has been closed''] w
            else (Returned (), w)) of
        (Panicked p, w1) \<Rightarrow> (Panicked p, cf, w1)
      | (Returned u, w1) \<Rightarrow>
          (case File_Write (File cf) b of
             (r, f1) \<Rightarrow> (Returned r, cf\<lparr>File := f1\<rparr>, w1)))"

section \<open>Sinks\<close>

text \<open>
  The \<^verbatim>\<open>io.Writer\<close> a logger is built on: \<^verbatim>\<open>ioutil.Discard\<close>, a \<^verbatim>\<open>*bytes.Buffer\<close>,
  the package's closeableFile, or any other writer of the caller. For the last one,
  \<open>cw_closer\<close> says whether its dynamic type also implements \<^verbatim>\<open>io.Closer\<close>, and its
  results are scripted as for a file.
\<close>

record custom_writer =
  cw_closer :: bool
  cw_faults :: "error option list"
  cw_calls :: "syscall list"

datatype writer =
    Discard
  | Buffer string
  | CloseableFile closeableFile
  | Custom custom_writer

fun writer_Write ::
  "writer \<Rightarrow> string \<Rightarrow> world \<Rightarrow> (nat \<times> error option) outcome \<times> writer \<times> world" where
  "writer_Write Discard b w = (Returned (length b, None), Discard, w)"
| "writer_Write (Buffer s) b w = (Returned (length b, None), Buffer (s @ b), w)"
| "writer_Write (CloseableFile cf) b w =
     (case closeableFile_Write cf b w of (r, cf1, w1) \<Rightarrow> (r, CloseableFile cf1, w1))"
| "writer_Write (Custom c) b w =
     (case next_fault (cw_faults c) of
        (Some e, rest) \<Rightarrow>
          (Returned (0, Some e),
           Custom (c\<lparr>cw_faults := rest, cw_calls := cw_calls c @ [SysWrite b]\<rparr>), w)
      | (None, rest) \<Rightarrow>
          (Returned (length b, None),
           Custom (c\<lparr>cw_faults := rest, cw_calls := cw_calls c @ [SysWrite b]\<rparr>), w))"

text \<open>
  The type assertion \<^verbatim>\<open>w.(io.Closer)\<close> followed by \<^verbatim>\<open>c.Close()\<close>: \<open>None\<close> when the
  sink has no \<^verbatim>\<open>Close\<close> method.
\<close>

fun writer_Close ::
  "writer \<Rightarrow> world \<Rightarrow> (error option outcome \<times> writer \<times> world) option" where
  "writer_Close Discard w = None"
| "writer_Close (Buffer s) w = None"
| "writer_Close (CloseableFile cf) w =
     (case closeableFile_Close cf w of (r, cf1, w1) \<Rightarrow> Some (r, CloseableFile cf1, w1))"
| "writer_Close (Custom c) w =
     (if cw_closer c then
        (case next_fault (cw_faults c) of
           (r, rest) \<Rightarrow>
             Some (Returned r, Custom (c\<lparr>cw_faults := rest, cw_calls := cw_calls c @ [SysClose]\<rparr>), w))
      else None)"

section \<open>Logger\<close>

text \<open>
  The Go struct holds a \<^verbatim>\<open>*log.Logger\<close> and the writer it was built on; both
  constructors give the two the same writer, so the model keeps one sink. Of the
  standard logger only its flags matter: with no flag set (and the empty prefix) a line
  has no header.
\<close>

record Logger =
  lflags :: nat
  staticW :: writer
  staticOptions :: Options

definition formatHeader :: "Logger \<Rightarrow> world \<Rightarrow> string" where
  "formatHeader l w = (if lflags l = 0 then [] else hdr w)"

text \<open>
  \<^verbatim>\<open>func (l *log.Logger) Output(calldepth int, s string) error\<close> of the standard
  library: header, the text, a newline unless the text ends in one, all in one
  \<^verbatim>\<open>Write\<close> on the sink. The call depth only selects the file and line shown in the
  header.
\<close>

definition Output :: "Logger \<Rightarrow> nat \<Rightarrow> string \<Rightarrow> world \<Rightarrow> error option outcome \<times> Logger \<times> world" where
  "Output l calldepth s w =
     (let buf = formatHeader l w @ s @
                  (if s = [] \<or> last s \<noteq> CHR 0x0A then ''\<newline>'' else [])
      in case writer_Write (staticW l) buf w of
           (Panicked p, wr, w1) \<Rightarrow> (Panicked p, l\<lparr>staticW := wr\<rparr>, w1)
         | (Returned (n, err), wr, w1) \<Rightarrow> (Returned err, l\<lparr>staticW := wr\<rparr>, w1))"

text \<open>\<^verbatim>\<open>func (l *Logger) BuildInfoString() string\<close>\<close>

definition Logger_BuildInfoString :: "Logger \<Rightarrow> string" where
  "Logger_BuildInfoString l = Options_BuildInfoString (staticOptions l)"

text \<open>\<^verbatim>\<open>func (l *Logger) Close() error\<close>\<close>

definition Logger_Close :: "Logger \<Rightarrow> world \<Rightarrow> error option outcome \<times> Logger \<times> world" where
  "Logger_Close l w =
     (case Output l 2 ''SHUTDOWN: Logging has terminated.'' w of
        (Panicked p, l1, w1) \<Rightarrow> (Panicked p, l1, w1)
      | (Returned err, l1, w1) \<Rightarrow>
          (case writer_Close (staticW l1) w1 of
             Some (r, wr, w2) \<Rightarrow> (r, l1\<lparr>staticW := wr\<rparr>, w2)
           | None \<Rightarrow> (Returned err, l1, w1)))"

text \<open>\<^verbatim>\<open>func (l *Logger) Critical(v ...interface{})\<close>\<close>

definition Logger_Critical :: "Logger \<Rightarrow> val list \<Rightarrow> world \<Rightarrow> unit outcome \<times> Logger \<times> world" where
  "Logger_Critical l v w =
     (case Output l 2 (''CRITICAL: '' @ Sprintln v) w of
        (Panicked p, l1, w1) \<Rightarrow> (Panicked p, l1, w1)
      | (Returned err, l1, w1) \<Rightarrow>
          (case Options_Critical (staticOptions l) v w1 of (r, w2) \<Rightarrow> (r, l1, w2)))"

text \<open>\<^verbatim>\<open>func (l *Logger) Debug(v ...interface{})\<close>\<close>

definition Logger_Debug :: "Logger \<Rightarrow> val list \<Rightarrow> world \<Rightarrow> unit outcome \<times> Logger \<times> world" where
  "Logger_Debug l v w =
     (if Debug (staticOptions l) then
        (case Output l 2 (Sprint v) w of
           (Panicked p, l1, w1) \<Rightarrow> (Panicked p, l1, w1)
         | (Returned err, l1, w1) \<Rightarrow> (Returned (), l1, w1))
      else (Returned (), l, w))"

text \<open>
  \<^verbatim>\<open>func (l *Logger) Debugf(format string, v ...interface{})\<close>; \<open>sprintf\<close> is
  \<^verbatim>\<open>fmt.Sprintf\<close>.
\<close>

definition Logger_Debugf ::
  "(string \<Rightarrow> val list \<Rightarrow> string) \<Rightarrow> Logger \<Rightarrow> string \<Rightarrow> val list \<Rightarrow> world
     \<Rightarrow> unit outcome \<times> Logger \<times> world" where
  "Logger_Debugf sprintf l format v w =
     (if Debug (staticOptions l) then
        (case Output l 2 (sprintf format v) w of
           (Panicked p, l1, w1) \<Rightarrow> (Panicked p, l1, w1)
         | (Returned err, l1, w1) \<Rightarrow> (Returned (), l1, w1))
      else (Returned (), l, w))"

text \<open>\<^verbatim>\<open>func (l *Logger) Debugln(v ...interface{})\<close>\<close>

definition Logger_Debugln :: "Logger \<Rightarrow> val list \<Rightarrow> world \<Rightarrow> unit outcome \<times> Logger \<times> world" where
  "Logger_Debugln l v w =
     (if Debug (staticOptions l) then
        (case Output l 2 (''[DEBUG] '' @ Sprintln v) w of
           (Panicked p, l1, w1) \<Rightarrow> (Panicked p, l1, w1)
         | (Returned err, l1, w1) \<Rightarrow> (Returned (), l1, w1))
      else (Returned (), l, w))"

text \<open>\<^verbatim>\<open>func (l *Logger) Errorf(format string, v ...interface{})\<close>\<close>

definition Logger_Errorf ::
  "(string \<Rightarrow> val list \<Rightarrow> string) \<Rightarrow> Logger \<Rightarrow> string \<Rightarrow> val list \<Rightarrow> world
     \<Rightarrow> unit outcome \<times> Logger \<times> world" where
  "Logger_Errorf sprintf l format v w =
     (case Output l 2 (''[ERROR] '' @ sprintf format v) w of
        (Panicked p, l1, w1) \<Rightarrow> (Panicked p, l1, w1)
      | (Returned err, l1, w1) \<Rightarrow> (Returned (), l1, w1))"

text \<open>\<^verbatim>\<open>func (l *Logger) Errorln(v ...interface{})\<close>\<close>

definition Logger_Errorln :: "Logger \<Rightarrow> val list \<Rightarrow> world \<Rightarrow> unit outcome \<times> Logger \<times> world" where
  "Logger_Errorln l v w =
     (case Output l 2 (''[ERROR] '' @ Sprintln v) w of
        (Panicked p, l1, w1) \<Rightarrow> (Panicked p, l1, w1)
      | (Returned err, l1, w1) \<Rightarrow> (Returned (), l1, w1))"

text \<open>\<^verbatim>\<open>func (l *Logger) Severe(v ...interface{})\<close>\<close>

definition Logger_Severe :: "Logger \<Rightarrow> val list \<Rightarrow> world \<Rightarrow> unit outcome \<times> Logger \<times> world" where
  "Logger_Severe l v w =
     (case Output l 2 (''SEVERE: '' @ Sprintln v) w of
        (Panicked p, l1, w1) \<Rightarrow> (Panicked p, l1, w1)
      | (Returned err, l1, w1) \<Rightarrow>
          (let s = Sprintf ''Severe error: %v %v'' [Logger_BuildInfoString l, Sprintln v];
               w2 = (if Release (staticOptions l) \<noteq> Testing
                     then Stderr_WriteString s (PrintStack w1) else w1)
           in if Debug (staticOptions l) then (Panicked s, l1, w2) else (Returned (), l1, w2)))"

text \<open>
  \<^verbatim>\<open>func NewLogger(w io.Writer, options Options) (*Logger, error)\<close>. The flags are
  \<^verbatim>\<open>Ldate|Ltime|Lmicroseconds|Lshortfile|LUTC\<close>, that is \<open>1 + 2 + 4 + 16 + 32\<close>. The sink
  is returned beside the result, as the caller keeps it also when no logger is built.
\<close>

definition NewLogger ::
  "writer \<Rightarrow> Options \<Rightarrow> world \<Rightarrow> (error + Logger) outcome \<times> writer \<times> world" where
  "NewLogger wr options w =
     (if Release options = Release_RT \<or> Release options = Dev \<or> Release options = Testing then
        (let message = Sprintf ''STARTUP: Logging has started. %v Version %v''
                         [BinaryName options, Version options];
             l = \<lparr>lflags = 55, staticW = wr, staticOptions = options\<rparr>
         in case Output l 3 message w of
              (Panicked p, l1, w1) \<Rightarrow> (Panicked p, staticW l1, w1)
            | (Returned (Some err), l1, w1) \<Rightarrow> (Returned (Inl err), staticW l1, w1)
            | (Returned None, l1, w1) \<Rightarrow> (Returned (Inr l1), staticW l1, w1))
      else
        (case ReleaseType_String (Release options) of
           Panicked p \<Rightarrow> (Panicked p, wr, w)
         | Returned s \<Rightarrow>
             (Returned (Inl (Errorf (Sprintf ''invalid ReleaseType provided: %v'' [s]))), wr, w)))"

text \<open>
  \<^verbatim>\<open>func NewFileLogger(logFilename string, options Options) (*Logger, error)\<close>. The first
  argument is the result of \<^verbatim>\<open>os.OpenFile\<close> on the file name.
\<close>

definition NewFileLogger ::
  "error + os_file \<Rightarrow> Options \<Rightarrow> world \<Rightarrow> (error + Logger) outcome \<times> world" where
  "NewFileLogger opened options w =
     (case opened of
        Inl err \<Rightarrow> (Returned (Inl err), w)
      | Inr logFile \<Rightarrow>
          (let cf = \<lparr>File = logFile, closed = False, cf_staticOptions = options\<rparr>
           in case NewLogger (CloseableFile cf) options w of (r, wr, w1) \<Rightarrow> (r, w1)))"

text \<open>\<^verbatim>\<open>func newDiscardLogger() *Logger\<close> and the variable \<^verbatim>\<open>DiscardLogger\<close>.\<close>

definition newDiscardLogger :: Logger where
  "newDiscardLogger =
     \<lparr>lflags = 0, staticW = Discard,
      staticOptions = \<lparr>BinaryName = ''discard'', BugReportURL = [], Debug = True,
                       Release = Testing, Version = ''0''\<rparr>\<rparr>"

definition DiscardLogger :: Logger where
  "DiscardLogger = newDiscardLogger"


section \<open>Vocabulary of the properties\<close>

text \<open>
  The message of the escalation as the specification words it:
  \<^verbatim>\<open>"Critical error: <build-info> <message>\nPlease submit a bug report here: <url>\n"\<close>,
  the message being the operands joined by spaces with a trailing newline.
\<close>

definition critical_payload :: "Options \<Rightarrow> val list \<Rightarrow> string" where
  "critical_payload opts v =
     ''Critical error: '' @ Options_BuildInfoString opts @ '' '' @ Sprintln v @
     ''Please submit a bug report here: '' @ BugReportURL opts @ ''\<newline>''"

text \<open>The summary of \<^verbatim>\<open>Severe\<close>: build info and message, no bug-report wording.\<close>

definition severe_summary :: "Options \<Rightarrow> val list \<Rightarrow> string" where
  "severe_summary opts v = ''Severe error: '' @ Options_BuildInfoString opts @ '' '' @ Sprintln v"

text \<open>
  The diagnostic on standard error: a stack trace, then the text; only when the release
  mode is not \<open>Testing\<close>.
\<close>

definition report :: "Options \<Rightarrow> string \<Rightarrow> world \<Rightarrow> world" where
  "report opts s w =
     (if Release opts \<noteq> Testing then w\<lparr>stderr := stderr w @ [StackTrace, Text s]\<rparr> else w)"

text \<open>
  Writing one line to the sink of a logger: a single \<^verbatim>\<open>Write\<close> of the header, the text
  and a newline unless the text ends in one. The result of the write is dropped; a panic
  of the sink is passed on.
\<close>

definition emit :: "Logger \<Rightarrow> string \<Rightarrow> world \<Rightarrow> unit outcome \<times> Logger \<times> world" where
  "emit l s w =
     (case writer_Write (staticW l)
             (formatHeader l w @ s @ (if s = [] \<or> last s \<noteq> CHR 0x0A then ''\<newline>'' else [])) w of
        (Panicked p, wr, w1) \<Rightarrow> (Panicked p, l\<lparr>staticW := wr\<rparr>, w1)
      | (Returned r, wr, w1) \<Rightarrow> (Returned (), l\<lparr>staticW := wr\<rparr>, w1))"

text \<open>
  The one state in which a write to a sink does not return: the sink is a closeableFile
  that has been closed, and its options have debug on, so the sanity check of
  \<^verbatim>\<open>Write\<close> aborts. A logger is in that state only when it is called after its
  \<^verbatim>\<open>Close\<close>, which the doc comment of \<^verbatim>\<open>NewLogger\<close> rules out ("Calls should not be
  made to the logger after 'Close' has been called").
\<close>

fun sink_aborts :: "writer \<Rightarrow> bool" where
  "sink_aborts (CloseableFile cf) = (closed cf \<and> Debug (cf_staticOptions cf))"
| "sink_aborts Discard = False"
| "sink_aborts (Buffer s) = False"
| "sink_aborts (Custom c) = False"


text \<open>
  Sequences of calls on a closeableFile. A step gives the state the call leaves behind,
  whether it returned or panicked, so a run also covers callers that recover from a
  panic and go on.
\<close>

datatype cf_op = OpWrite string | OpClose

fun cf_step :: "cf_op \<Rightarrow> closeableFile \<times> world \<Rightarrow> closeableFile \<times> world" where
  "cf_step (OpWrite b) (cf, w) = snd (closeableFile_Write cf b w)"
| "cf_step OpClose (cf, w) = snd (closeableFile_Close cf w)"

fun cf_run :: "cf_op list \<Rightarrow> closeableFile \<times> world \<Rightarrow> closeableFile \<times> world" where
  "cf_run [] s = s"
| "cf_run (x # xs) s = cf_run xs (cf_step x s)"

text \<open>The operands the two sanity checks of closeableFile hand to \<^verbatim>\<open>Critical\<close>.\<close>

definition write_misuse :: "val list" where
  "write_misuse = [Str ''cannot write to the file after it has been closed'']"

definition close_misuse :: "val list" where
  "close_misuse = [Str ''cannot close the file; already closed'']"

section \<open>Concrete configurations\<close>

text \<open>
  The options of \<^verbatim>\<open>TestLoggerCriticalPanic\<close>, a file that has just been opened, and an
  environment with nothing on standard error yet whose line header is \<open>''T ''\<close>.
\<close>

definition test_options :: Options where
  "test_options = \<lparr>BinaryName = ''test'', BugReportURL = [], Debug = True, Release = Testing,
     Version = ''0.0.1''\<rparr>"

definition fresh_file :: os_file where
  "fresh_file = \<lparr>contents = [], fd_open = True, faults = [], calls = []\<rparr>"

definition world0 :: world where
  "world0 = \<lparr>stderr = [], hdr = ''T ''\<rparr>"

text \<open>
  The logger \<^verbatim>\<open>NewFileLogger\<close> returns for these (see \<open>NewFileLogger_opens\<close> below),
  and the state of that logger after one \<^verbatim>\<open>Close\<close>.
\<close>

definition open_file_logger :: Logger where
  "open_file_logger =
     \<lparr>lflags = 55,
      staticW = CloseableFile
        \<lparr>File = \<lparr>contents = ''T STARTUP: Logging has started. test Version 0.0.1\<newline>'',
                  fd_open = True, faults = [],
                  calls = [SysWrite ''T STARTUP: Logging has started. test Version 0.0.1\<newline>'']\<rparr>,
         closed = False, cf_staticOptions = test_options\<rparr>,
      staticOptions = test_options\<rparr>"

definition closed_file_logger :: Logger where
  "closed_file_logger =
     \<lparr>lflags = 55,
      staticW = CloseableFile
        \<lparr>File = \<lparr>contents = ''T STARTUP: Logging has started. test Version 0.0.1\<newline>T SHUTDOWN: Logging has terminated.\<newline>'',
                  fd_open = False, faults = [],
                  calls = [SysWrite ''T STARTUP: Logging has started. test Version 0.0.1\<newline>'',
                           SysWrite ''T SHUTDOWN: Logging has terminated.\<newline>'',
                           SysSync, SysClose]\<rparr>,
         closed = True, cf_staticOptions = test_options\<rparr>,
      staticOptions = test_options\<rparr>"

text \<open>Loggers on a buffer, with debug on (test mode) and with debug off (release mode).\<close>

definition debug_buffer_logger :: Logger where
  "debug_buffer_logger = \<lparr>lflags = 55, staticW = Buffer [], staticOptions = test_options\<rparr>"

definition release_buffer_logger :: Logger where
  "release_buffer_logger =
     \<lparr>lflags = 55, staticW = Buffer [],
      staticOptions = test_options\<lparr>Debug := False, Release := Release_RT\<rparr>\<rparr>"

text \<open>
  Loggers on a sink of the caller whose next write fails: one whose sink can be closed
  (and whose close fails as well), one whose sink cannot.
\<close>

definition failing_closer :: Logger where
  "failing_closer =
     \<lparr>lflags = 55,
      staticW = Custom \<lparr>cw_closer = True,
                        cw_faults = [Some (ErrIO ''disk full''), Some (ErrIO ''close failed'')],
                        cw_calls = []\<rparr>,
      staticOptions = test_options\<rparr>"

definition failing_writer :: Logger where
  "failing_writer =
     \<lparr>lflags = 55,
      staticW = Custom \<lparr>cw_closer = False, cw_faults = [Some (ErrIO ''disk full'')], cw_calls = []\<rparr>,
      staticOptions = test_options\<rparr>"

text \<open>
  A closeableFile that has been closed, with debug off; and one still open whose next
  system call fails.
\<close>

definition closed_quiet_file :: closeableFile where
  "closed_quiet_file =
     \<lparr>File = \<lparr>contents = [], fd_open = False, faults = [], calls = [SysSync, SysClose]\<rparr>,
      closed = True,
      cf_staticOptions = test_options\<lparr>Debug := False\<rparr>\<rparr>"

definition sync_failing_file :: closeableFile where
  "sync_failing_file =
     \<lparr>File = \<lparr>contents = [], fd_open = True, faults = [Some (ErrIO ''sync failed'')], calls = []\<rparr>,
      closed = False, cf_staticOptions = test_options\<rparr>"

section \<open>Facts about the formatter and the standard logger\<close>

lemmas release_defs = ReleaseTypeError_def Release_RT_def Dev_def Testing_def

lemma Critical_format:
  "Sprintf ''Critical error: %v %vPlease submit a bug report here: %v\<newline>'' [a, b, c] =
     ''Critical error: '' @ a @ '' '' @ b @ ''Please submit a bug report here: '' @ c @ ''\<newline>''"
  by simp

lemma Severe_format:
  "Sprintf ''Severe error: %v %v'' [a, b] = ''Severe error: '' @ a @ '' '' @ b"
  by simp

lemma Sprintln_ends: "Sprintln v \<noteq> [] \<and> last (Sprintln v) = CHR 0x0A"
  by (simp add: Sprintln_def)

lemma Options_Critical_eq:
  "Options_Critical opts v w =
     (if Debug opts then Panicked (critical_payload opts v) else Returned (),
      report opts (critical_payload opts v) w)"
  unfolding Options_Critical_def critical_payload_def report_def Critical_format
  by (simp add: Let_def PrintStack_def Stderr_WriteString_def)

text \<open>A text that ends in a newline goes to the sink as it is, after the header.\<close>

lemma Output_Sprintln:
  "Output l d (pre @ Sprintln v) w =
     (case writer_Write (staticW l) (formatHeader l w @ pre @ Sprintln v) w of
        (Panicked p, wr, w1) \<Rightarrow> (Panicked p, l\<lparr>staticW := wr\<rparr>, w1)
      | (Returned (n, err), wr, w1) \<Rightarrow> (Returned err, l\<lparr>staticW := wr\<rparr>, w1))"
  unfolding Output_def Let_def using Sprintln_ends [of v] by simp

lemma Output_emit:
  "(case Output l d s w of
      (Panicked p, l1, w1) \<Rightarrow> (Panicked p, l1, w1)
    | (Returned err, l1, w1) \<Rightarrow> (Returned (), l1, w1)) = emit l s w"
proof -
  let ?buf = "formatHeader l w @ s @ (if s = [] \<or> last s \<noteq> CHR 0x0A then ''\<newline>'' else [])"
  obtain r wr w1 where W: "writer_Write (staticW l) ?buf w = (r, wr, w1)"
    by (cases "writer_Write (staticW l) ?buf w") auto
  show ?thesis
  proof (cases r)
    case (Returned x)
    obtain n err where "x = (n, err)" by (cases x) auto
    with W Returned show ?thesis
      by (simp add: Output_def emit_def Let_def)
  next
    case (Panicked p)
    with W show ?thesis
      by (simp add: Output_def emit_def Let_def)
  qed
qed

section \<open>Facts about the file and closeableFile\<close>

lemma File_Write_calls: "calls (snd (File_Write f b)) = calls f @ [SysWrite b]"
  by (simp add: File_Write_def Let_def split: prod.splits option.splits)

lemma File_Sync_calls: "calls (snd (File_Sync f)) = calls f @ [SysSync]"
  by (simp add: File_Sync_def Let_def split: prod.splits)

lemma File_Close_calls: "calls (snd (File_Close f)) = calls f @ [SysClose]"
  by (simp add: File_Close_def Let_def split: prod.splits)

lemma File_Sync_fd_open: "fd_open (snd (File_Sync f)) = fd_open f"
  by (simp add: File_Sync_def Let_def split: prod.splits)

lemma closeableFile_Write_closed:
  "closed (fst (snd (closeableFile_Write cf b w))) = closed cf"
  by (simp add: closeableFile_Write_def Options_Critical_eq split: prod.splits)

lemma closeableFile_Close_closed:
  "closed cf \<Longrightarrow> closed (fst (snd (closeableFile_Close cf w)))"
  by (simp add: closeableFile_Close_def Options_Critical_eq split: prod.splits option.splits)

lemma cf_step_closed: "closed (fst s) \<Longrightarrow> closed (fst (cf_step x s))"
  by (cases x; cases s) (simp_all add: closeableFile_Write_closed closeableFile_Close_closed)

text \<open>
  A write that returns was not stopped by the sanity check, and leaves the flag and the
  options as they were; a close under the same condition returns as well.
\<close>

lemma closeableFile_Write_returns:
  assumes "closeableFile_Write cf b w = (Returned x, cf1, w1)"
  shows "\<not> (closed cf \<and> Debug (cf_staticOptions cf))
       \<and> closed cf1 = closed cf \<and> cf_staticOptions cf1 = cf_staticOptions cf"
  using assms
  by (auto simp: closeableFile_Write_def Options_Critical_eq split: prod.splits if_splits)

lemma closeableFile_Close_returns:
  assumes "\<not> (closed cf \<and> Debug (cf_staticOptions cf))"
  shows "\<exists>e. fst (closeableFile_Close cf w) = Returned e"
  using assms
  by (auto simp: closeableFile_Close_def Options_Critical_eq split: prod.splits option.splits)

lemma writer_Close_after_Write:
  assumes "writer_Write wr0 b w = (Returned x, wr, w1)"
    and "writer_Close wr w1 = Some (c, wr2, w2)"
  shows "\<exists>e. c = Returned e"
proof (cases wr0)
  case Discard
  with assms show ?thesis by auto
next
  case (Buffer s)
  with assms show ?thesis by auto
next
  case (CloseableFile cf)
  with assms(1) obtain cf1 where W: "closeableFile_Write cf b w = (Returned x, cf1, w1)"
    and wr: "wr = CloseableFile cf1"
    by (auto split: prod.splits)
  from closeableFile_Write_returns [OF W]
  have "\<not> (closed cf1 \<and> Debug (cf_staticOptions cf1))" by simp
  from closeableFile_Close_returns [OF this, of w1] assms(2) wr
  show ?thesis by (auto split: prod.splits)
next
  case (Custom cw)
  with assms show ?thesis
    by (auto split: prod.splits option.splits if_splits)
qed

section \<open>Sinks whose writes return\<close>

text \<open>
  A write returns exactly when the sink is not a closed closeableFile with debug on; no
  logger that a constructor returns has such a sink.
\<close>

lemma writer_Write_returns:
  assumes "\<not> sink_aborts wr"
  shows "\<exists>n err wr1 w1. writer_Write wr b w = (Returned (n, err), wr1, w1)"
proof (cases wr)
  case Discard
  then show ?thesis by simp
next
  case (Buffer s)
  then show ?thesis by simp
next
  case (CloseableFile cf)
  with assms have "\<not> (closed cf \<and> Debug (cf_staticOptions cf))" by simp
  then have "\<exists>n err cf1 w1. closeableFile_Write cf b w = (Returned (n, err), cf1, w1)"
    by (cases "File_Write (File cf) b")
      (auto simp: closeableFile_Write_def Options_Critical_eq)
  with CloseableFile show ?thesis by auto
next
  case (Custom c)
  then show ?thesis
    by (cases "next_fault (cw_faults c)") (auto split: option.splits)
qed

lemma writer_Write_aborts:
  assumes "sink_aborts wr"
  shows "\<exists>p w1. writer_Write wr b w = (Panicked p, wr, w1)"
proof (cases wr)
  case (CloseableFile cf)
  with assms show ?thesis
    by (simp add: closeableFile_Write_def Options_Critical_eq)
qed (use assms in simp_all)

lemma writer_Write_sink_aborts:
  assumes "writer_Write wr b w = (Returned x, wr1, w1)"
  shows "\<not> sink_aborts wr1"
proof (cases wr)
  case (CloseableFile cf)
  with assms obtain cf1 where W: "closeableFile_Write cf b w = (Returned x, cf1, w1)"
    and wr1: "wr1 = CloseableFile cf1"
    by (auto split: prod.splits)
  from closeableFile_Write_returns [OF W] wr1 show ?thesis by simp
next
  case (Custom c)
  with assms show ?thesis
    by (cases "next_fault (cw_faults c)") (auto split: option.splits)
qed (use assms in auto)

lemma NewLogger_sink_writable:
  assumes "NewLogger wr opts w = (Returned (Inr l), wr1, w1)"
  shows "\<not> sink_aborts (staticW l)"
proof -
  let ?l0 = "\<lparr>lflags = 55, staticW = wr, staticOptions = opts\<rparr>"
  let ?msg = "Sprintf ''STARTUP: Logging has started. %v Version %v'' [BinaryName opts, Version opts]"
  let ?buf = "formatHeader ?l0 w @ ?msg @ (if ?msg = [] \<or> last ?msg \<noteq> CHR 0x0A then ''\<newline>'' else [])"
  obtain r wr2 w2 where W: "writer_Write wr ?buf w = (r, wr2, w2)"
    by (cases "writer_Write wr ?buf w") auto
  from assms have valid: "Release opts = Release_RT \<or> Release opts = Dev \<or> Release opts = Testing"
    by (auto simp: NewLogger_def split: if_splits outcome.splits)
  show ?thesis
  proof (cases r)
    case (Panicked p)
    with assms W valid show ?thesis
      by (simp add: NewLogger_def Output_def Let_def)
  next
    case (Returned x)
    obtain n err where x: "x = (n, err)" by (cases x) auto
    from W Returned have "\<not> sink_aborts wr2" by (simp add: writer_Write_sink_aborts)
    moreover from assms W Returned x valid have "staticW l = wr2"
      by (cases err) (auto simp: NewLogger_def Output_def Let_def)
    ultimately show ?thesis by simp
  qed
qed

section \<open>A file logger\<close>

text \<open>\<open>open_file_logger\<close> is what \<^verbatim>\<open>NewFileLogger\<close> returns on a fresh file.\<close>

lemma NewFileLogger_opens:
  "NewFileLogger (Inr fresh_file) test_options world0 = (Returned (Inr open_file_logger), world0)"
  by (simp add: NewFileLogger_def NewLogger_def Output_def formatHeader_def closeableFile_Write_def
      File_Write_def next_fault_def test_options_def fresh_file_def world0_def open_file_logger_def
      release_defs Let_def)

section \<open>Construction\<close>

text \<open>
  Claim C1 as stated fails: with the release mode 4, which is none of the four
  constants, \<^verbatim>\<open>NewLogger\<close> does not return an error. The argument of \<^verbatim>\<open>fmt.Errorf\<close>
  is \<^verbatim>\<open>options.Release.String()\<close>, and that call panics before any error is built.
\<close>

theorem NewLogger_mode4_counterexample:
  "NewLogger (Buffer []) (test_options\<lparr>Debug := False, Release := 4\<rparr>) world0 =
     (Panicked ''unknown release type'', Buffer [], world0)"
  by (simp add: NewLogger_def ReleaseType_String_def test_options_def release_defs)

text \<open>
  Claim C1, amended: for every configuration whose release mode is none of
  \<open>Release\<close>, \<open>Dev\<close>, \<open>Testing\<close> and not the uninitialized sentinel, constructing a
  logger panics with the payload \<open>unknown release type\<close>; nothing is written to the
  sink or to standard error, and no error is returned.
\<close>

theorem NewLogger_unknown_mode_panics:
  "Release opts \<noteq> ReleaseTypeError \<Longrightarrow> Release opts \<noteq> Release_RT \<Longrightarrow>
   Release opts \<noteq> Dev \<Longrightarrow> Release opts \<noteq> Testing \<Longrightarrow>
   NewLogger wr opts w = (Panicked ''unknown release type'', wr, w)"
  by (simp add: NewLogger_def ReleaseType_String_def)

theorem NewLogger_unknown_mode_panics_witness:
  "Release (test_options\<lparr>Release := 7\<rparr>) \<noteq> ReleaseTypeError \<and>
   Release (test_options\<lparr>Release := 7\<rparr>) \<noteq> Release_RT \<and>
   Release (test_options\<lparr>Release := 7\<rparr>) \<noteq> Dev \<and>
   Release (test_options\<lparr>Release := 7\<rparr>) \<noteq> Testing \<and>
   NewLogger Discard (test_options\<lparr>Release := 7\<rparr>) world0 =
     (Panicked ''unknown release type'', Discard, world0)"
proof -
  have h: "Release (test_options\<lparr>Release := 7\<rparr>) \<noteq> ReleaseTypeError"
    "Release (test_options\<lparr>Release := 7\<rparr>) \<noteq> Release_RT"
    "Release (test_options\<lparr>Release := 7\<rparr>) \<noteq> Dev"
    "Release (test_options\<lparr>Release := 7\<rparr>) \<noteq> Testing"
    by (simp_all add: release_defs)
  from h NewLogger_unknown_mode_panics [OF h, of Discard world0] show ?thesis by blast
qed

text \<open>
  Claim C2: for every configuration whose release mode is the uninitialized sentinel
  \<open>ReleaseTypeError\<close>, whatever its debug flag, constructing a logger panics at once with
  the payload \<open>uninitialized release type\<close>: no error is returned, and nothing was
  written to the sink or to standard error.
\<close>

theorem NewLogger_uninitialized_panics:
  "Release opts = ReleaseTypeError \<Longrightarrow>
   NewLogger wr opts w = (Panicked ''uninitialized release type'', wr, w)"
  by (simp add: NewLogger_def ReleaseType_String_def release_defs)

theorem NewLogger_uninitialized_panics_witness:
  "NewLogger (Buffer []) (test_options\<lparr>Debug := True, Release := ReleaseTypeError\<rparr>) world0 =
     (Panicked ''uninitialized release type'', Buffer [], world0) \<and>
   NewLogger (Buffer []) (test_options\<lparr>Debug := False, Release := ReleaseTypeError\<rparr>) world0 =
     (Panicked ''uninitialized release type'', Buffer [], world0)"
proof -
  have h1: "Release (test_options\<lparr>Debug := True, Release := ReleaseTypeError\<rparr>) = ReleaseTypeError"
    by simp
  have h2: "Release (test_options\<lparr>Debug := False, Release := ReleaseTypeError\<rparr>) = ReleaseTypeError"
    by simp
  from NewLogger_uninitialized_panics [OF h1, of "Buffer []" world0]
    NewLogger_uninitialized_panics [OF h2, of "Buffer []" world0]
  show ?thesis by blast
qed

section \<open>The Critical escalation\<close>

text \<open>
  Claim C3: for every configuration and message, the Critical escalation builds the
  payload \<open>Critical error: \<close>, build info, a space, the space-joined message with its
  newline, \<open>Please submit a bug report here: \<close>, the URL and a newline; it puts a stack
  trace and that payload on standard error if and only if the release mode is not
  \<open>Testing\<close>; and it panics with that payload if and only if the debug flag is true,
  returning normally otherwise. This is \<^verbatim>\<open>Options.Critical\<close> for every input, and
  \<^verbatim>\<open>Logger.Critical\<close>, with the options of the logger and after its \<open>CRITICAL:\<close> line
  has gone to the sink, for every logger that is not called after its \<^verbatim>\<open>Close\<close>.
\<close>

theorem Critical_escalation:
  "Options_Critical opts v w =
     (if Debug opts then Panicked (critical_payload opts v) else Returned (),
      report opts (critical_payload opts v) w)
   \<and> (\<not> sink_aborts (staticW l) \<longrightarrow>
        (\<exists>n err wr w1.
           writer_Write (staticW l) (formatHeader l w @ ''CRITICAL: '' @ Sprintln v) w
             = (Returned (n, err), wr, w1) \<and>
           Logger_Critical l v w =
             (if Debug (staticOptions l) then Panicked (critical_payload (staticOptions l) v)
              else Returned (),
              l\<lparr>staticW := wr\<rparr>,
              report (staticOptions l) (critical_payload (staticOptions l) v) w1)))"
proof (intro conjI impI)
  show "Options_Critical opts v w =
     (if Debug opts then Panicked (critical_payload opts v) else Returned (),
      report opts (critical_payload opts v) w)"
    by (rule Options_Critical_eq)
next
  assume "\<not> sink_aborts (staticW l)"
  from writer_Write_returns [OF this]
  obtain n err wr w1 where
    W: "writer_Write (staticW l) (formatHeader l w @ ''CRITICAL: '' @ Sprintln v) w
          = (Returned (n, err), wr, w1)"
    by blast
  have "Logger_Critical l v w =
          (if Debug (staticOptions l) then Panicked (critical_payload (staticOptions l) v)
           else Returned (),
           l\<lparr>staticW := wr\<rparr>,
           report (staticOptions l) (critical_payload (staticOptions l) v) w1)"
    unfolding Logger_Critical_def Output_Sprintln Options_Critical_eq W by simp
  with W show "\<exists>n err wr w1.
           writer_Write (staticW l) (formatHeader l w @ ''CRITICAL: '' @ Sprintln v) w
             = (Returned (n, err), wr, w1) \<and>
           Logger_Critical l v w =
             (if Debug (staticOptions l) then Panicked (critical_payload (staticOptions l) v)
              else Returned (),
              l\<lparr>staticW := wr\<rparr>,
              report (staticOptions l) (critical_payload (staticOptions l) v) w1)"
    by blast
qed

theorem Critical_escalation_witness:
  "\<not> sink_aborts (staticW debug_buffer_logger) \<and>
   Logger_Critical debug_buffer_logger [Str ''a critical message''] world0 =
     (Panicked ''Critical error: (test v0.0.1, Release: testing) a critical message\<newline>Please submit a bug report here: \<newline>'',
      debug_buffer_logger\<lparr>staticW := Buffer ''T CRITICAL: a critical message\<newline>''\<rparr>, world0)"
proof -
  have h: "\<not> sink_aborts (staticW debug_buffer_logger)"
    by (simp add: debug_buffer_logger_def)
  have e: "writer_Write (staticW debug_buffer_logger)
             (formatHeader debug_buffer_logger world0 @ ''CRITICAL: '' @ Sprintln [Str ''a critical message''])
             world0
           = (Returned (31, None), Buffer ''T CRITICAL: a critical message\<newline>'', world0)"
    by (simp add: debug_buffer_logger_def formatHeader_def world0_def Sprintln_def)
  from Critical_escalation [where l = debug_buffer_logger and v = "[Str ''a critical message'']"
      and w = world0, THEN conjunct2, rule_format, OF h]
  obtain n err wr w1 where
    "writer_Write (staticW debug_buffer_logger)
       (formatHeader debug_buffer_logger world0 @ ''CRITICAL: '' @ Sprintln [Str ''a critical message''])
       world0 = (Returned (n, err), wr, w1)"
    and L: "Logger_Critical debug_buffer_logger [Str ''a critical message''] world0 =
       (if Debug (staticOptions debug_buffer_logger)
        then Panicked (critical_payload (staticOptions debug_buffer_logger) [Str ''a critical message''])
        else Returned (),
        debug_buffer_logger\<lparr>staticW := wr\<rparr>,
        report (staticOptions debug_buffer_logger)
          (critical_payload (staticOptions debug_buffer_logger) [Str ''a critical message'']) w1)"
    by blast
  with e have "wr = Buffer ''T CRITICAL: a critical message\<newline>''" and "w1 = world0" by simp_all
  with L have "Logger_Critical debug_buffer_logger [Str ''a critical message''] world0 =
     (Panicked ''Critical error: (test v0.0.1, Release: testing) a critical message\<newline>Please submit a bug report here: \<newline>'',
      debug_buffer_logger\<lparr>staticW := Buffer ''T CRITICAL: a critical message\<newline>''\<rparr>, world0)"
    by (simp add: debug_buffer_logger_def test_options_def critical_payload_def report_def
        Options_BuildInfoString_def fmt_Stringer_def ReleaseType_String_def release_defs Sprintln_def)
  with h show ?thesis by blast
qed

text \<open>
  Claim C9: the discard logger has debug on, the release mode \<open>Testing\<close> and the sink
  \<^verbatim>\<open>ioutil.Discard\<close>; for every message, \<^verbatim>\<open>Critical\<close> on it panics, and the payload is
  \<open>Critical error: (discard v0, Release: testing) \<close> followed by the message and the
  bug-report line. Neither the logger nor standard error has changed at the panic.
\<close>

theorem DiscardLogger_Critical_panics:
  "Debug (staticOptions DiscardLogger) \<and> Release (staticOptions DiscardLogger) = Testing \<and>
   staticW DiscardLogger = Discard \<and>
   Logger_Critical DiscardLogger v w =
     (Panicked (''Critical error: (discard v0, Release: testing) '' @ Sprintln v @
                ''Please submit a bug report here: \<newline>''),
      DiscardLogger, w)"
  unfolding Logger_Critical_def Output_Sprintln Options_Critical_eq
  by (simp add: DiscardLogger_def newDiscardLogger_def formatHeader_def
      critical_payload_def report_def Options_BuildInfoString_def
      ReleaseType_String_def fmt_Stringer_def release_defs)

section \<open>Debug, Severe and Close of a logger\<close>

text \<open>
  Claim C4 as stated fails: with debug on, \<^verbatim>\<open>Debug\<close> writes the header and the message
  only; the line carries no \<open>[DEBUG]\<close> prefix.
\<close>

theorem Logger_Debug_no_prefix_counterexample:
  "Debug (staticOptions debug_buffer_logger) \<and>
   Logger_Debug debug_buffer_logger [Str ''starting''] world0 =
     (Returned (), debug_buffer_logger\<lparr>staticW := Buffer ''T starting\<newline>''\<rparr>, world0)"
  by (simp add: Logger_Debug_def Output_def formatHeader_def Sprint_def debug_buffer_logger_def
      test_options_def world0_def Let_def)

text \<open>
  Claim C4, amended: for every logger and arguments, each of \<^verbatim>\<open>Debug\<close>, \<^verbatim>\<open>Debugf\<close> and
  \<^verbatim>\<open>Debugln\<close> changes nothing when the debug flag is false. When it is true, each
  writes one line to the sink: \<^verbatim>\<open>Debugln\<close> the prefix \<open>[DEBUG] \<close> and the space-joined
  message, \<^verbatim>\<open>Debug\<close> and \<^verbatim>\<open>Debugf\<close> the message as \<^verbatim>\<open>fmt.Sprint\<close> and
  \<^verbatim>\<open>fmt.Sprintf\<close> format it, with no prefix.
\<close>

theorem Debug_variants:
  "(\<not> Debug (staticOptions l) \<longrightarrow>
      Logger_Debug l v w = (Returned (), l, w) \<and>
      Logger_Debugf sprintf l format v w = (Returned (), l, w) \<and>
      Logger_Debugln l v w = (Returned (), l, w))
   \<and> (Debug (staticOptions l) \<longrightarrow>
      Logger_Debugln l v w = emit l (''[DEBUG] '' @ Sprintln v) w \<and>
      Logger_Debug l v w = emit l (Sprint v) w \<and>
      Logger_Debugf sprintf l format v w = emit l (sprintf format v) w)"
  unfolding Logger_Debug_def Logger_Debugf_def Logger_Debugln_def Output_emit
  by simp

theorem Debug_variants_witness:
  "Debug (staticOptions debug_buffer_logger) \<and> \<not> Debug (staticOptions release_buffer_logger) \<and>
   Logger_Debugln debug_buffer_logger [Str ''starting'', NonStr ''7''] world0 =
     (Returned (), debug_buffer_logger\<lparr>staticW := Buffer ''T [DEBUG] starting 7\<newline>''\<rparr>, world0)
   \<and> Logger_Debug debug_buffer_logger [Str ''starting'', NonStr ''7''] world0 =
     (Returned (), debug_buffer_logger\<lparr>staticW := Buffer ''T starting7\<newline>''\<rparr>, world0)
   \<and> Logger_Debugln release_buffer_logger [Str ''starting'', NonStr ''7''] world0 =
     (Returned (), release_buffer_logger, world0)"
proof -
  have d1: "Debug (staticOptions debug_buffer_logger)"
    by (simp add: debug_buffer_logger_def test_options_def)
  have d2: "\<not> Debug (staticOptions release_buffer_logger)"
    by (simp add: release_buffer_logger_def test_options_def)
  from Debug_variants [where l = debug_buffer_logger and v = "[Str ''starting'', NonStr ''7'']"
      and w = world0, THEN conjunct2, rule_format, OF d1]
    Debug_variants [where l = release_buffer_logger and v = "[Str ''starting'', NonStr ''7'']"
      and w = world0, THEN conjunct1, rule_format, OF d2]
  have "Logger_Debugln debug_buffer_logger [Str ''starting'', NonStr ''7''] world0 =
     (Returned (), debug_buffer_logger\<lparr>staticW := Buffer ''T [DEBUG] starting 7\<newline>''\<rparr>, world0)
   \<and> Logger_Debug debug_buffer_logger [Str ''starting'', NonStr ''7''] world0 =
     (Returned (), debug_buffer_logger\<lparr>staticW := Buffer ''T starting7\<newline>''\<rparr>, world0)
   \<and> Logger_Debugln release_buffer_logger [Str ''starting'', NonStr ''7''] world0 =
     (Returned (), release_buffer_logger, world0)"
    by (simp add: emit_def debug_buffer_logger_def formatHeader_def world0_def Sprintln_def Sprint_def)
  with d1 d2 show ?thesis by blast
qed

text \<open>
  Claim C5: for every logger that is not called after its \<^verbatim>\<open>Close\<close>, and every message,
  \<^verbatim>\<open>Severe\<close> writes the line \<open>SEVERE: \<close> and the message to the sink; if and only if
  the release mode is not \<open>Testing\<close>, a stack trace and the summary \<open>Severe error: \<close>,
  build info and message (no bug-report wording) go to standard error; and if and only
  if the debug flag is true, \<^verbatim>\<open>Severe\<close> then panics with that summary as payload,
  returning normally otherwise.
\<close>

theorem Severe_effects:
  assumes "\<not> sink_aborts (staticW l)"
  shows "\<exists>n err wr w1.
           writer_Write (staticW l) (formatHeader l w @ ''SEVERE: '' @ Sprintln v) w
             = (Returned (n, err), wr, w1) \<and>
           Logger_Severe l v w =
             (if Debug (staticOptions l) then Panicked (severe_summary (staticOptions l) v)
              else Returned (),
              l\<lparr>staticW := wr\<rparr>,
              report (staticOptions l) (severe_summary (staticOptions l) v) w1)"
proof -
  from writer_Write_returns [OF assms]
  obtain n err wr w1 where
    W: "writer_Write (staticW l) (formatHeader l w @ ''SEVERE: '' @ Sprintln v) w
          = (Returned (n, err), wr, w1)"
    by blast
  have "Logger_Severe l v w =
          (if Debug (staticOptions l) then Panicked (severe_summary (staticOptions l) v)
           else Returned (),
           l\<lparr>staticW := wr\<rparr>,
           report (staticOptions l) (severe_summary (staticOptions l) v) w1)"
    unfolding Logger_Severe_def Output_Sprintln Severe_format W
    by (simp add: Let_def severe_summary_def report_def Logger_BuildInfoString_def
        PrintStack_def Stderr_WriteString_def)
  with W show ?thesis by blast
qed

theorem Severe_effects_witness:
  "\<not> sink_aborts (staticW release_buffer_logger) \<and>
   Logger_Severe release_buffer_logger [Str ''disk full''] world0 =
     (Returned (),
      release_buffer_logger\<lparr>staticW := Buffer ''T SEVERE: disk full\<newline>''\<rparr>,
      world0\<lparr>stderr := [StackTrace,
                Text ''Severe error: (test v0.0.1, Release: release) disk full\<newline>'']\<rparr>)"
proof -
  have h: "\<not> sink_aborts (staticW release_buffer_logger)"
    by (simp add: release_buffer_logger_def)
  have e: "writer_Write (staticW release_buffer_logger)
             (formatHeader release_buffer_logger world0 @ ''SEVERE: '' @ Sprintln [Str ''disk full''])
             world0
           = (Returned (20, None), Buffer ''T SEVERE: disk full\<newline>'', world0)"
    by (simp add: release_buffer_logger_def formatHeader_def world0_def Sprintln_def)
  from Severe_effects [OF h, of world0 "[Str ''disk full'']"]
  obtain n err wr w1 where
    "writer_Write (staticW release_buffer_logger)
       (formatHeader release_buffer_logger world0 @ ''SEVERE: '' @ Sprintln [Str ''disk full''])
       world0 = (Returned (n, err), wr, w1)"
    and L: "Logger_Severe release_buffer_logger [Str ''disk full''] world0 =
       (if Debug (staticOptions release_buffer_logger)
        then Panicked (severe_summary (staticOptions release_buffer_logger) [Str ''disk full''])
        else Returned (),
        release_buffer_logger\<lparr>staticW := wr\<rparr>,
        report (staticOptions release_buffer_logger)
          (severe_summary (staticOptions release_buffer_logger) [Str ''disk full'']) w1)"
    by blast
  with e have "wr = Buffer ''T SEVERE: disk full\<newline>''" and "w1 = world0" by simp_all
  with L have "Logger_Severe release_buffer_logger [Str ''disk full''] world0 =
     (Returned (),
      release_buffer_logger\<lparr>staticW := Buffer ''T SEVERE: disk full\<newline>''\<rparr>,
      world0\<lparr>stderr := [StackTrace,
                Text ''Severe error: (test v0.0.1, Release: release) disk full\<newline>'']\<rparr>)"
    by (simp add: release_buffer_logger_def test_options_def severe_summary_def report_def
        Options_BuildInfoString_def fmt_Stringer_def ReleaseType_String_def release_defs Sprintln_def
        world0_def)
  with h show ?thesis by blast
qed

text \<open>
  Claim C6: for every logger that is not called after its \<^verbatim>\<open>Close\<close>, \<^verbatim>\<open>Close\<close> writes
  the line \<open>SHUTDOWN: Logging has terminated.\<close> to the sink; then, if the sink supports
  closing, it calls the sink's \<^verbatim>\<open>Close\<close> and returns its error, whatever the write
  returned; otherwise it returns the error of the write.
\<close>

theorem Close_effects:
  assumes "\<not> sink_aborts (staticW l)"
  shows "\<exists>n err wr w1.
           writer_Write (staticW l) (formatHeader l w @ ''SHUTDOWN: Logging has terminated.\<newline>'') w
             = (Returned (n, err), wr, w1) \<and>
           (case writer_Close wr w1 of
              Some (c, wr2, w2) \<Rightarrow>
                (\<exists>cerr. c = Returned cerr) \<and> Logger_Close l w = (c, l\<lparr>staticW := wr2\<rparr>, w2)
            | None \<Rightarrow> Logger_Close l w = (Returned err, l\<lparr>staticW := wr\<rparr>, w1))"
proof -
  from writer_Write_returns [OF assms]
  obtain n err wr w1 where
    W: "writer_Write (staticW l) (formatHeader l w @ ''SHUTDOWN: Logging has terminated.\<newline>'') w
          = (Returned (n, err), wr, w1)"
    by blast
  have "case writer_Close wr w1 of
          Some (c, wr2, w2) \<Rightarrow>
            (\<exists>cerr. c = Returned cerr) \<and> Logger_Close l w = (c, l\<lparr>staticW := wr2\<rparr>, w2)
        | None \<Rightarrow> Logger_Close l w = (Returned err, l\<lparr>staticW := wr\<rparr>, w1)"
  proof (cases "writer_Close wr w1")
    case None
    with W show ?thesis
      by (simp add: Logger_Close_def Output_def Let_def)
  next
    case (Some t)
    obtain c wr2 w2 where t: "t = (c, wr2, w2)" by (cases t) auto
    from writer_Close_after_Write [OF W] Some t have "\<exists>cerr. c = Returned cerr" by simp
    moreover from W Some t have "Logger_Close l w = (c, l\<lparr>staticW := wr2\<rparr>, w2)"
      by (simp add: Logger_Close_def Output_def Let_def)
    ultimately show ?thesis using Some t by simp
  qed
  with W show ?thesis by blast
qed

theorem Close_effects_witness:
  "\<not> sink_aborts (staticW open_file_logger) \<and>
   Logger_Close open_file_logger world0 = (Returned None, closed_file_logger, world0)
   \<and> \<not> sink_aborts (staticW failing_closer) \<and>
   Logger_Close failing_closer world0 =
     (Returned (Some (ErrIO ''close failed'')),
      failing_closer\<lparr>staticW := Custom \<lparr>cw_closer = True, cw_faults = [],
         cw_calls = [SysWrite ''T SHUTDOWN: Logging has terminated.\<newline>'', SysClose]\<rparr>\<rparr>,
      world0)
   \<and> \<not> sink_aborts (staticW failing_writer) \<and>
   Logger_Close failing_writer world0 =
     (Returned (Some (ErrIO ''disk full'')),
      failing_writer\<lparr>staticW := Custom \<lparr>cw_closer = False, cw_faults = [],
         cw_calls = [SysWrite ''T SHUTDOWN: Logging has terminated.\<newline>'']\<rparr>\<rparr>,
      world0)"
proof -
  have h0: "\<not> sink_aborts (staticW open_file_logger)"
    by (simp add: open_file_logger_def)
  have h1: "\<not> sink_aborts (staticW failing_closer)"
    by (simp add: failing_closer_def)
  have h2: "\<not> sink_aborts (staticW failing_writer)"
    by (simp add: failing_writer_def)
  have e0: "writer_Write (staticW open_file_logger)
              (formatHeader open_file_logger world0 @ ''SHUTDOWN: Logging has terminated.\<newline>'') world0
            = (Returned (36, None),
               CloseableFile
                 \<lparr>File = \<lparr>contents = ''T STARTUP: Logging has started. test Version 0.0.1\<newline>T SHUTDOWN: Logging has terminated.\<newline>'',
                           fd_open = True, faults = [],
                           calls = [SysWrite ''T STARTUP: Logging has started. test Version 0.0.1\<newline>'',
                                    SysWrite ''T SHUTDOWN: Logging has terminated.\<newline>'']\<rparr>,
                  closed = False, cf_staticOptions = test_options\<rparr>, world0)"
    by (simp add: open_file_logger_def formatHeader_def world0_def closeableFile_Write_def
        File_Write_def next_fault_def Let_def)
  have e1: "writer_Write (staticW failing_closer)
              (formatHeader failing_closer world0 @ ''SHUTDOWN: Logging has terminated.\<newline>'') world0
            = (Returned (0, Some (ErrIO ''disk full'')),
               Custom \<lparr>cw_closer = True, cw_faults = [Some (ErrIO ''close failed'')],
                 cw_calls = [SysWrite ''T SHUTDOWN: Logging has terminated.\<newline>'']\<rparr>, world0)"
    by (simp add: failing_closer_def formatHeader_def world0_def next_fault_def)
  have e2: "writer_Write (staticW failing_writer)
              (formatHeader failing_writer world0 @ ''SHUTDOWN: Logging has terminated.\<newline>'') world0
            = (Returned (0, Some (ErrIO ''disk full'')),
               Custom \<lparr>cw_closer = False, cw_faults = [],
                 cw_calls = [SysWrite ''T SHUTDOWN: Logging has terminated.\<newline>'']\<rparr>, world0)"
    by (simp add: failing_writer_def formatHeader_def world0_def next_fault_def)
  have "Logger_Close open_file_logger world0 = (Returned None, closed_file_logger, world0)"
    using Close_effects [OF h0, of world0] unfolding e0
    by (simp add: closeableFile_Close_def File_Sync_def File_Close_def next_fault_def Let_def
        open_file_logger_def closed_file_logger_def)
  moreover have "Logger_Close failing_closer world0 =
     (Returned (Some (ErrIO ''close failed'')),
      failing_closer\<lparr>staticW := Custom \<lparr>cw_closer = True, cw_faults = [],
         cw_calls = [SysWrite ''T SHUTDOWN: Logging has terminated.\<newline>'', SysClose]\<rparr>\<rparr>,
      world0)"
    using Close_effects [OF h1, of world0] unfolding e1
    by (simp add: next_fault_def)
  moreover have "Logger_Close failing_writer world0 =
     (Returned (Some (ErrIO ''disk full'')),
      failing_writer\<lparr>staticW := Custom \<lparr>cw_closer = False, cw_faults = [],
         cw_calls = [SysWrite ''T SHUTDOWN: Logging has terminated.\<newline>'']\<rparr>\<rparr>,
      world0)"
    using Close_effects [OF h2, of world0] unfolding e2
    by simp
  ultimately show ?thesis using h0 h1 h2 by blast
qed

section \<open>closeableFile\<close>

text \<open>
  Claim C7: for every closeableFile, once the closed flag is true it is true after any
  sequence of \<^verbatim>\<open>Write\<close> and \<^verbatim>\<open>Close\<close> calls, those that panic included: nothing
  resets it.
\<close>

theorem closed_is_permanent:
  "closed cf \<Longrightarrow> closed (fst (cf_run xs (cf, w)))"
proof -
  have "closed (fst s) \<Longrightarrow> closed (fst (cf_run xs s))" for s
  proof (induction xs arbitrary: s)
    case Nil
    then show ?case by simp
  next
    case (Cons x xs)
    from Cons.prems have "closed (fst (cf_step x s))" by (rule cf_step_closed)
    then show ?case using Cons.IH by simp
  qed
  then show "closed cf \<Longrightarrow> closed (fst (cf_run xs (cf, w)))" by simp
qed

theorem closed_is_permanent_witness:
  "closed closed_quiet_file \<and>
   closed (fst (cf_run [OpWrite ''late'', OpClose, OpWrite ''later''] (closed_quiet_file, world0)))"
proof -
  have h: "closed closed_quiet_file" by (simp add: closed_quiet_file_def)
  from h closed_is_permanent [OF h, of "[OpWrite ''late'', OpClose, OpWrite ''later'']" world0]
  show ?thesis by blast
qed

text \<open>
  Claim C8: for every closeableFile whose closed flag is true, \<^verbatim>\<open>Write\<close> and \<^verbatim>\<open>Close\<close>
  each run the Critical escalation with their misuse message. The call panics with the
  escalation's payload if and only if the debug flag is true, before the file is
  touched. When the flag is false the call does not return early: \<^verbatim>\<open>Write\<close> hands the
  bytes to the file and returns its result; \<^verbatim>\<open>Close\<close> syncs the file and, unless the
  sync fails, closes it, returning the error of the sync or else that of the close.
\<close>

theorem closed_misuse_escalates:
  assumes "closed cf"
  shows
    "closeableFile_Write cf b w =
       (if Debug (cf_staticOptions cf) then
          (Panicked (critical_payload (cf_staticOptions cf) write_misuse), cf,
           report (cf_staticOptions cf) (critical_payload (cf_staticOptions cf) write_misuse) w)
        else
          (Returned (fst (File_Write (File cf) b)), cf\<lparr>File := snd (File_Write (File cf) b)\<rparr>,
           report (cf_staticOptions cf) (critical_payload (cf_staticOptions cf) write_misuse) w))
     \<and> closeableFile_Close cf w =
       (if Debug (cf_staticOptions cf) then
          (Panicked (critical_payload (cf_staticOptions cf) close_misuse), cf,
           report (cf_staticOptions cf) (critical_payload (cf_staticOptions cf) close_misuse) w)
        else
          (case File_Sync (File cf) of
             (Some err, f1) \<Rightarrow>
               (Returned (Some err), cf\<lparr>File := f1\<rparr>,
                report (cf_staticOptions cf) (critical_payload (cf_staticOptions cf) close_misuse) w)
           | (None, f1) \<Rightarrow>
               (Returned (fst (File_Close f1)), cf\<lparr>File := snd (File_Close f1), closed := True\<rparr>,
                report (cf_staticOptions cf) (critical_payload (cf_staticOptions cf) close_misuse) w)))
     \<and> (\<not> Debug (cf_staticOptions cf) \<longrightarrow>
          calls (File (fst (snd (closeableFile_Write cf b w)))) = calls (File cf) @ [SysWrite b] \<and>
          (calls (File (fst (snd (closeableFile_Close cf w)))) = calls (File cf) @ [SysSync] \<or>
           calls (File (fst (snd (closeableFile_Close cf w)))) = calls (File cf) @ [SysSync, SysClose]))"
proof (intro conjI impI)
  show W: "closeableFile_Write cf b w =
       (if Debug (cf_staticOptions cf) then
          (Panicked (critical_payload (cf_staticOptions cf) write_misuse), cf,
           report (cf_staticOptions cf) (critical_payload (cf_staticOptions cf) write_misuse) w)
        else
          (Returned (fst (File_Write (File cf) b)), cf\<lparr>File := snd (File_Write (File cf) b)\<rparr>,
           report (cf_staticOptions cf) (critical_payload (cf_staticOptions cf) write_misuse) w))"
    using assms
    by (simp add: closeableFile_Write_def Options_Critical_eq write_misuse_def split: prod.splits)
  show C: "closeableFile_Close cf w =
       (if Debug (cf_staticOptions cf) then
          (Panicked (critical_payload (cf_staticOptions cf) close_misuse), cf,
           report (cf_staticOptions cf) (critical_payload (cf_staticOptions cf) close_misuse) w)
        else
          (case File_Sync (File cf) of
             (Some err, f1) \<Rightarrow>
               (Returned (Some err), cf\<lparr>File := f1\<rparr>,
                report (cf_staticOptions cf) (critical_payload (cf_staticOptions cf) close_misuse) w)
           | (None, f1) \<Rightarrow>
               (Returned (fst (File_Close f1)), cf\<lparr>File := snd (File_Close f1), closed := True\<rparr>,
                report (cf_staticOptions cf) (critical_payload (cf_staticOptions cf) close_misuse) w)))"
    using assms
    by (simp add: closeableFile_Close_def Options_Critical_eq close_misuse_def
        split: prod.splits option.splits)
  assume D: "\<not> Debug (cf_staticOptions cf)"
  show "calls (File (fst (snd (closeableFile_Write cf b w)))) = calls (File cf) @ [SysWrite b]"
    using D by (simp add: W File_Write_calls)
  obtain r f1 where S: "File_Sync (File cf) = (r, f1)" by (cases "File_Sync (File cf)") auto
  then have S1: "calls f1 = calls (File cf) @ [SysSync]"
    using File_Sync_calls [of "File cf"] by simp
  show "calls (File (fst (snd (closeableFile_Close cf w)))) = calls (File cf) @ [SysSync] \<or>
        calls (File (fst (snd (closeableFile_Close cf w)))) = calls (File cf) @ [SysSync, SysClose]"
    using D S S1 by (cases r) (simp_all add: C File_Close_calls)
qed

theorem closed_misuse_escalates_witness:
  "closed closed_quiet_file \<and>
   closeableFile_Write closed_quiet_file ''late'' world0 =
     (Returned (0, Some ErrClosed),
      closed_quiet_file\<lparr>File := \<lparr>contents = [], fd_open = False, faults = [],
                                   calls = [SysSync, SysClose, SysWrite ''late'']\<rparr>\<rparr>,
      world0) \<and>
   closeableFile_Close closed_quiet_file world0 =
     (Returned (Some ErrClosed),
      closed_quiet_file\<lparr>File := \<lparr>contents = [], fd_open = False, faults = [],
                                   calls = [SysSync, SysClose, SysSync]\<rparr>\<rparr>,
      world0)"
proof -
  have h: "closed closed_quiet_file" by (simp add: closed_quiet_file_def)
  from h closed_misuse_escalates [OF h, of "''late''" world0] show ?thesis
    by (simp add: closed_quiet_file_def test_options_def report_def File_Write_def File_Sync_def
        Let_def)
qed

text \<open>
  Claim C10: for every closeableFile that is not closed, if the sync fails during
  \<^verbatim>\<open>Close\<close>, then \<^verbatim>\<open>Close\<close> returns the error of the sync; the closed flag is still
  false; the handle is as open as it was and no close of the file was attempted; and a
  retry of \<^verbatim>\<open>Close\<close> returns without the misuse escalation: no panic, and nothing on
  standard error.
\<close>

theorem Close_sync_failure:
  assumes "\<not> closed cf" and "File_Sync (File cf) = (Some err, f1)"
  shows "closeableFile_Close cf w = (Returned (Some err), cf\<lparr>File := f1\<rparr>, w)
       \<and> \<not> closed (cf\<lparr>File := f1\<rparr>)
       \<and> fd_open f1 = fd_open (File cf)
       \<and> calls f1 = calls (File cf) @ [SysSync]
       \<and> (\<exists>r cf2. closeableFile_Close (cf\<lparr>File := f1\<rparr>) w = (Returned r, cf2, w))"
proof (intro conjI)
  show "closeableFile_Close cf w = (Returned (Some err), cf\<lparr>File := f1\<rparr>, w)"
    using assms by (simp add: closeableFile_Close_def)
  show "\<not> closed (cf\<lparr>File := f1\<rparr>)" using assms by simp
  show "fd_open f1 = fd_open (File cf)"
    using File_Sync_fd_open [of "File cf"] assms by simp
  show "calls f1 = calls (File cf) @ [SysSync]"
    using File_Sync_calls [of "File cf"] assms by simp
  show "\<exists>r cf2. closeableFile_Close (cf\<lparr>File := f1\<rparr>) w = (Returned r, cf2, w)"
    using assms by (simp add: closeableFile_Close_def split: prod.splits option.splits)
qed

theorem Close_sync_failure_witness:
  "\<not> closed sync_failing_file \<and>
   File_Sync (File sync_failing_file) =
     (Some (ErrIO ''sync failed''), \<lparr>contents = [], fd_open = True, faults = [], calls = [SysSync]\<rparr>) \<and>
   closeableFile_Close sync_failing_file world0 =
     (Returned (Some (ErrIO ''sync failed'')),
      sync_failing_file\<lparr>File := \<lparr>contents = [], fd_open = True, faults = [], calls = [SysSync]\<rparr>\<rparr>,
      world0)"
proof -
  have h1: "\<not> closed sync_failing_file" by (simp add: sync_failing_file_def)
  have h2: "File_Sync (File sync_failing_file) =
     (Some (ErrIO ''sync failed''), \<lparr>contents = [], fd_open = True, faults = [], calls = [SysSync]\<rparr>)"
    by (simp add: sync_failing_file_def File_Sync_def next_fault_def Let_def)
  from h1 h2 Close_sync_failure [OF h1 h2, of world0] show ?thesis by simp
qed

end
